theory Spec2Isabelle
  imports Main
begin

section \<open>Data model\<close>

text \<open>
  \<^verbatim>\<open>HookType\<close> (App.tsx) is a union of ten string literals; at run time a value of it
  is a string, and both \<^verbatim>\<open>switch\<close> statements of the program compare strings and
  carry a \<^verbatim>\<open>default\<close> branch. The model keeps it a string.
\<close>

type_synonym HookType = string

text \<open>
  The elements App.tsx builds for its content area: a component element
  (\<^verbatim>\<open><UseStateDemo />\<close>, identified by the imported binding), a \<^verbatim>\<open>div\<close> with a
  class and a text child, and \<open>Nothing\<close> for the values React renders as nothing
  (\<^verbatim>\<open>false\<close>, \<^verbatim>\<open>null\<close>).
\<close>

datatype element =
    Nothing
  | Component string
  | Div string string

text \<open>
  \<^verbatim>\<open>cn\<close> (lib/utils) merges class names. A class attribute is recorded as the
  argument list \<^verbatim>\<open>cn\<close> is called with; an argument \<^verbatim>\<open>cond && "..."\<close> whose condition
  is false is \<open>None\<close>.
\<close>

datatype className = Cn "string option list"

record HookInfo =
  hook_id :: HookType
  name :: string
  description :: string
  category :: string

record NavigationState =
  selectedHook :: HookType
  sidebarOpen :: bool

section \<open>Sidebar.tsx\<close>

definition hooks :: "HookInfo list" where
  "hooks =
    [\<lparr>hook_id = ''useState'', name = ''useState'',
      description = ''Manage component state'', category = ''Basic''\<rparr>,
     \<lparr>hook_id = ''useEffect'', name = ''useEffect'',
      description = ''Handle side effects'', category = ''Basic''\<rparr>,
     \<lparr>hook_id = ''useContext'', name = ''useContext'',
      description = ''Access React context'', category = ''Basic''\<rparr>,
     \<lparr>hook_id = ''useReducer'', name = ''useReducer'',
      description = ''Complex state management'', category = ''Advanced''\<rparr>,
     \<lparr>hook_id = ''useCallback'', name = ''useCallback'',
      description = ''Memoize callbacks'', category = ''Performance''\<rparr>,
     \<lparr>hook_id = ''useMemo'', name = ''useMemo'',
      description = ''Memoize expensive calculations'', category = ''Performance''\<rparr>,
     \<lparr>hook_id = ''useRef'', name = ''useRef'',
      description = ''Access DOM elements'', category = ''Advanced''\<rparr>,
     \<lparr>hook_id = ''useImperativeHandle'', name = ''useImperativeHandle'',
      description = ''Customize ref exposure'', category = ''Advanced''\<rparr>,
     \<lparr>hook_id = ''useLayoutEffect'', name = ''useLayoutEffect'',
      description = ''Synchronous effects'', category = ''Advanced''\<rparr>,
     \<lparr>hook_id = ''useDebugValue'', name = ''useDebugValue'',
      description = ''Display debug info'', category = ''Advanced''\<rparr>]"

definition getCategoryColor :: "string \<Rightarrow> string" where
  "getCategoryColor c =
    (if c = ''Basic'' then ''bg-green-100 text-green-800 hover:bg-green-200''
     else if c = ''Advanced'' then ''bg-blue-100 text-blue-800 hover:bg-blue-200''
     else if c = ''Performance'' then ''bg-purple-100 text-purple-800 hover:bg-purple-200''
     else ''bg-gray-100 text-gray-800 hover:bg-gray-200'')"

text \<open>
  What \<^verbatim>\<open>Sidebar\<close> renders, as far as the Shell and the user can observe it: the
  overlay (present only when \<^verbatim>\<open>isOpen\<close>) with its click handler, the drawer's class,
  the close button's handler, and one row per element of \<^verbatim>\<open>hooks.map\<close>. A handler is
  a transformer of the state \<open>'s\<close> its callbacks act on; the two statements of a row's
  handler run one after the other.
\<close>

record 's RowView =
  row_key :: HookType
  row_onClick :: "'s \<Rightarrow> 's"
  row_className :: className
  row_code :: string
  badge_className :: className
  badge_text :: string
  row_p :: string

record 's SidebarView =
  overlay_onClick :: "('s \<Rightarrow> 's) option"
  drawer_className :: className
  closeButton_onClick :: "'s \<Rightarrow> 's"
  rows :: "'s RowView list"

definition Sidebar_row ::
  "HookType \<Rightarrow> (HookType \<Rightarrow> 's \<Rightarrow> 's) \<Rightarrow> ('s \<Rightarrow> 's) \<Rightarrow> HookInfo \<Rightarrow> 's RowView" where
  "Sidebar_row selected onHookSelect onClose hook =
    \<lparr>row_key = hook_id hook,
     row_onClick = (\<lambda>s. onClose (onHookSelect (hook_id hook) s)),
     row_className = Cn
       [Some ''w-full text-left p-3 rounded-lg border transition-colors'',
        Some ''hover:bg-accent hover:text-accent-foreground'',
        (if selected = hook_id hook
         then Some ''bg-accent text-accent-foreground border-primary'' else None)],
     row_code = name hook,
     badge_className = Cn [Some ''text-xs'', Some (getCategoryColor (category hook))],
     badge_text = category hook,
     row_p = description hook\<rparr>"

definition Sidebar ::
  "HookType \<Rightarrow> (HookType \<Rightarrow> 's \<Rightarrow> 's) \<Rightarrow> bool \<Rightarrow> ('s \<Rightarrow> 's) \<Rightarrow> 's SidebarView" where
  "Sidebar selected onHookSelect isOpen onClose =
    \<lparr>overlay_onClick = (if isOpen then Some onClose else None),
     drawer_className = Cn
       [Some ''fixed right-0 top-0 h-full w-80 bg-card border-l shadow-lg transform transition-transform duration-300 ease-in-out z-50'',
        Some ''lg:relative lg:transform-none lg:shadow-none'',
        Some (if isOpen then ''translate-x-0'' else ''translate-x-full lg:translate-x-0'')],
     closeButton_onClick = onClose,
     rows = map (Sidebar_row selected onHookSelect onClose) hooks\<rparr>"

section \<open>App.tsx\<close>

definition renderHookDemo :: "HookType \<Rightarrow> element" where
  "renderHookDemo selected =
    (if selected = ''useState'' then Component ''UseStateDemo''
     else if selected = ''useEffect'' then Component ''UseEffectDemo''
     else if selected = ''useContext'' then Component ''UseContextDemo''
     else if selected = ''useReducer'' then Component ''UseReducerDemo''
     else if selected = ''useCallback'' then Component ''UseCallbackDemo''
     else if selected = ''useMemo'' then Component ''UseMemoDemo''
     else if selected = ''useRef'' then Component ''UseRefDemo''
     else if selected = ''useImperativeHandle'' then Component ''UseImperativeHandleDemo''
     else if selected = ''useLayoutEffect'' then Component ''UseLayoutEffectDemo''
     else if selected = ''useDebugValue'' then Component ''UseDebugValueDemo''
     else Div ''p-8 text-center text-muted-foreground'' ''Hook demo coming soon...'')"

text \<open>The two \<^verbatim>\<open>useState\<close> cells of \<^verbatim>\<open>App\<close> at mount, and their setters.\<close>

definition initial :: NavigationState where
  "initial = \<lparr>selectedHook = ''useState'', sidebarOpen = False\<rparr>"

definition setSelectedHook :: "HookType \<Rightarrow> NavigationState \<Rightarrow> NavigationState" where
  "setSelectedHook h s = s\<lparr>selectedHook := h\<rparr>"

definition setSidebarOpen :: "bool \<Rightarrow> NavigationState \<Rightarrow> NavigationState" where
  "setSidebarOpen b s = s\<lparr>sidebarOpen := b\<rparr>"

text \<open>
  One render of \<^verbatim>\<open>App\<close> in state \<open>s\<close>. The menu button's handler closes over the
  \<^verbatim>\<open>sidebarOpen\<close> of this render; the children of \<^verbatim>\<open><main>\<close> are the single
  expression \<^verbatim>\<open>{renderHookDemo()}\<close>.
\<close>

record AppView =
  menu_onClick :: "NavigationState \<Rightarrow> NavigationState"
  main_children :: "element list"
  sidebar :: "NavigationState SidebarView"

definition App :: "NavigationState \<Rightarrow> AppView" where
  "App s =
    \<lparr>menu_onClick = setSidebarOpen (\<not> sidebarOpen s),
     main_children = [renderHookDemo (selectedHook s)],
     sidebar = Sidebar (selectedHook s) setSelectedHook (sidebarOpen s) (setSidebarOpen False)\<rparr>"

section \<open>Clicks\<close>

text \<open>
  The clickable elements of one render. A click runs the handler that the render of the
  current state attached to the element; an element that is not in the render (the
  overlay of a closed sidebar, a row index past the list) receives no click.
  (Whether the overlay, the menu button and the close button are visible at a given
  viewport width is decided by the style sheet, \<^verbatim>\<open>lg:hidden\<close>, and is not modelled.)
\<close>

datatype click = ClickMenu | ClickOverlay | ClickCloseButton | ClickRow nat

definition dispatch :: "NavigationState \<Rightarrow> click \<Rightarrow> NavigationState option" where
  "dispatch s e =
    (case e of
       ClickMenu \<Rightarrow> Some (menu_onClick (App s) s)
     | ClickOverlay \<Rightarrow>
         (case overlay_onClick (sidebar (App s)) of
            None \<Rightarrow> None
          | Some h \<Rightarrow> Some (h s))
     | ClickCloseButton \<Rightarrow> Some (closeButton_onClick (sidebar (App s)) s)
     | ClickRow i \<Rightarrow>
         (if i < length (rows (sidebar (App s)))
          then Some (row_onClick (rows (sidebar (App s)) ! i) s)
          else None))"

inductive reachable :: "NavigationState \<Rightarrow> bool" where
  mount: "reachable initial"
| click: "reachable s \<Longrightarrow> dispatch s e = Some t \<Longrightarrow> reachable t"

text \<open>The panels mounted by a render: the component elements among the children of main.\<close>

fun mounted_panels :: "element list \<Rightarrow> string list" where
  "mounted_panels [] = []"
| "mounted_panels (Component c # es) = c # mounted_panels es"
| "mounted_panels (_ # es) = mounted_panels es"

text \<open>
  Recording callbacks, to observe which callbacks a handler of \<^verbatim>\<open>Sidebar\<close> invokes, with
  which argument and in which order: each call appends itself to a log.
\<close>

datatype call = HookSelect HookType | Close

definition record_select :: "HookType \<Rightarrow> call list \<Rightarrow> call list" where
  "record_select h log = log @ [HookSelect h]"

definition record_close :: "call list \<Rightarrow> call list" where
  "record_close log = log @ [Close]"

section \<open>useLocalStorage\<close>

text \<open>
  The lazy initialiser of \<^verbatim>\<open>useLocalStorage\<close>. \<^verbatim>\<open>window.localStorage\<close> either refuses
  access (the getter throws) or holds string items; \<^verbatim>\<open>getItem\<close> answers \<^verbatim>\<open>null\<close>
  (\<open>None\<close>) for an absent key. \<^verbatim>\<open>JSON.parse\<close> is the platform's: it is a parameter
  \<open>parse\<close>, where \<open>None\<close> stands for throwing a SyntaxError.
\<close>

datatype exn = SecurityError | SyntaxError

datatype localStorage = Unavailable | Items "string \<rightharpoonup> string"

definition getItem :: "localStorage \<Rightarrow> string \<Rightarrow> exn + string option" where
  "getItem st key = (case st of Unavailable \<Rightarrow> Inl SecurityError | Items m \<Rightarrow> Inr (m key))"

definition JSON_parse :: "(string \<Rightarrow> 'v option) \<Rightarrow> string \<Rightarrow> exn + 'v" where
  "JSON_parse parse text = (case parse text of None \<Rightarrow> Inl SyntaxError | Some v \<Rightarrow> Inr v)"

text \<open>The body of the \<^verbatim>\<open>try\<close>: \<^verbatim>\<open>item ? JSON.parse(item) : initialValue\<close>. A string is
  truthy when it is not empty.\<close>

definition useLocalStorage_try ::
  "(string \<Rightarrow> 'v option) \<Rightarrow> localStorage \<Rightarrow> string \<Rightarrow> 'v \<Rightarrow> exn + 'v" where
  "useLocalStorage_try parse st key initialValue =
    (case getItem st key of
       Inl e \<Rightarrow> Inl e
     | Inr item \<Rightarrow>
         (case item of
            None \<Rightarrow> Inr initialValue
          | Some text \<Rightarrow> if text \<noteq> [] then JSON_parse parse text else Inr initialValue))"

text \<open>The \<^verbatim>\<open>catch\<close> logs the error and returns \<^verbatim>\<open>initialValue\<close>.\<close>

definition useLocalStorage_init ::
  "(string \<Rightarrow> 'v option) \<Rightarrow> localStorage \<Rightarrow> string \<Rightarrow> 'v \<Rightarrow> exn + 'v" where
  "useLocalStorage_init parse st key initialValue =
    (case useLocalStorage_try parse st key initialValue of
       Inl e \<Rightarrow> Inr initialValue
     | Inr v \<Rightarrow> Inr v)"

section \<open>Timers of the panels\<close>

text \<open>
  The browser's timer table: \<^verbatim>\<open>setInterval\<close> and \<^verbatim>\<open>setTimeout\<close> hand out fresh positive
  handles from one pool and register the callback; \<^verbatim>\<open>clearInterval\<close> and
  \<^verbatim>\<open>clearTimeout\<close> remove a handle. A handle in \<open>active\<close> is a callback that will still
  fire.
\<close>

record timer_table =
  last_handle :: nat
  active :: "nat set"

definition setInterval :: "timer_table \<Rightarrow> nat \<times> timer_table" where
  "setInterval tt =
    (Suc (last_handle tt),
     \<lparr>last_handle = Suc (last_handle tt), active = insert (Suc (last_handle tt)) (active tt)\<rparr>)"

definition setTimeout :: "timer_table \<Rightarrow> nat \<times> timer_table" where
  "setTimeout tt =
    (Suc (last_handle tt),
     \<lparr>last_handle = Suc (last_handle tt), active = insert (Suc (last_handle tt)) (active tt)\<rparr>)"

definition clearInterval :: "nat \<Rightarrow> timer_table \<Rightarrow> timer_table" where
  "clearInterval h tt = tt\<lparr>active := active tt - {h}\<rparr>"

definition clearTimeout :: "nat \<Rightarrow> timer_table \<Rightarrow> timer_table" where
  "clearTimeout h tt = tt\<lparr>active := active tt - {h}\<rparr>"

text \<open>\<^verbatim>\<open>if (ref.current)\<close> on a ref holding a handle or \<^verbatim>\<open>null\<close>.\<close>

fun truthy :: "nat option \<Rightarrow> bool" where
  "truthy None = False"
| "truthy (Some h) = (h \<noteq> 0)"

subsection \<open>UseRefDemo: stopwatch and auto-save\<close>

record UseRefDemo_state =
  ref_seconds :: nat
  ref_isRunning :: bool
  ref_timerRef :: "nat option"
  ref_autoSaveText :: string
  ref_autoSaveTimeoutRef :: "nat option"

definition UseRefDemo_mount :: UseRefDemo_state where
  "UseRefDemo_mount =
    \<lparr>ref_seconds = 0, ref_isRunning = False, ref_timerRef = None,
     ref_autoSaveText = [], ref_autoSaveTimeoutRef = None\<rparr>"

definition ref_startTimer ::
  "UseRefDemo_state \<times> timer_table \<Rightarrow> UseRefDemo_state \<times> timer_table" where
  "ref_startTimer x =
    (case x of (p, tt) \<Rightarrow>
       if \<not> ref_isRunning p
       then (case setInterval tt of (h, tt') \<Rightarrow>
               (p\<lparr>ref_isRunning := True, ref_timerRef := Some h\<rparr>, tt'))
       else (p, tt))"

definition ref_stopTimer ::
  "UseRefDemo_state \<times> timer_table \<Rightarrow> UseRefDemo_state \<times> timer_table" where
  "ref_stopTimer x =
    (case x of (p, tt) \<Rightarrow>
       if truthy (ref_timerRef p)
       then (p\<lparr>ref_timerRef := None, ref_isRunning := False\<rparr>,
             clearInterval (the (ref_timerRef p)) tt)
       else (p, tt))"

definition ref_resetTimer ::
  "UseRefDemo_state \<times> timer_table \<Rightarrow> UseRefDemo_state \<times> timer_table" where
  "ref_resetTimer x =
    (case ref_stopTimer x of (p, tt) \<Rightarrow> (p\<lparr>ref_seconds := 0\<rparr>, tt))"

definition handleAutoSaveChange ::
  "string \<Rightarrow> UseRefDemo_state \<times> timer_table \<Rightarrow> UseRefDemo_state \<times> timer_table" where
  "handleAutoSaveChange v x =
    (case x of (p, tt) \<Rightarrow>
       (case setTimeout
               (if truthy (ref_autoSaveTimeoutRef p)
                then clearTimeout (the (ref_autoSaveTimeoutRef p)) tt else tt) of
          (h, tt') \<Rightarrow> (p\<lparr>ref_autoSaveText := v, ref_autoSaveTimeoutRef := Some h\<rparr>, tt')))"

text \<open>The interval's callback, \<^verbatim>\<open>setSeconds(prev => prev + 1)\<close>.\<close>

definition ref_tick :: "UseRefDemo_state \<Rightarrow> UseRefDemo_state" where
  "ref_tick p = p\<lparr>ref_seconds := ref_seconds p + 1\<rparr>"

text \<open>
  The cleanup returned by the component's last \<^verbatim>\<open>useEffect\<close> (dependencies \<^verbatim>\<open>[]\<close>), which
  React runs when the component unmounts; it reads the refs as they are then.
\<close>

definition UseRefDemo_cleanup :: "UseRefDemo_state \<Rightarrow> timer_table \<Rightarrow> timer_table" where
  "UseRefDemo_cleanup p tt =
    (let tt1 = (if truthy (ref_timerRef p) then clearInterval (the (ref_timerRef p)) tt else tt)
     in if truthy (ref_autoSaveTimeoutRef p)
        then clearTimeout (the (ref_autoSaveTimeoutRef p)) tt1 else tt1)"

datatype ref_event = StartTimer | StopTimer | ResetTimer | AutoSaveChange string | Tick

fun ref_handle ::
  "UseRefDemo_state \<times> timer_table \<Rightarrow> ref_event \<Rightarrow> UseRefDemo_state \<times> timer_table" where
  "ref_handle x StartTimer = ref_startTimer x"
| "ref_handle x StopTimer = ref_stopTimer x"
| "ref_handle x ResetTimer = ref_resetTimer x"
| "ref_handle x (AutoSaveChange v) = handleAutoSaveChange v x"
| "ref_handle (p, tt) Tick = (ref_tick p, tt)"

subsection \<open>UseCallbackDemo: timer\<close>

record UseCallbackDemo_state =
  cb_seconds :: nat
  cb_isRunning :: bool
  cb_timerRef :: "nat option"

definition UseCallbackDemo_mount :: UseCallbackDemo_state where
  "UseCallbackDemo_mount = \<lparr>cb_seconds = 0, cb_isRunning = False, cb_timerRef = None\<rparr>"

definition cb_startTimer ::
  "UseCallbackDemo_state \<times> timer_table \<Rightarrow> UseCallbackDemo_state \<times> timer_table" where
  "cb_startTimer x =
    (case x of (p, tt) \<Rightarrow>
       (case setInterval tt of (h, tt') \<Rightarrow>
          (p\<lparr>cb_isRunning := True, cb_timerRef := Some h\<rparr>, tt')))"

definition cb_stopTimer ::
  "UseCallbackDemo_state \<times> timer_table \<Rightarrow> UseCallbackDemo_state \<times> timer_table" where
  "cb_stopTimer x =
    (case x of (p, tt) \<Rightarrow>
       if truthy (cb_timerRef p)
       then (p\<lparr>cb_isRunning := False, cb_timerRef := None\<rparr>,
             clearInterval (the (cb_timerRef p)) tt)
       else (p\<lparr>cb_isRunning := False\<rparr>, tt))"

definition cb_resetTimer ::
  "UseCallbackDemo_state \<times> timer_table \<Rightarrow> UseCallbackDemo_state \<times> timer_table" where
  "cb_resetTimer x =
    (case x of (p, tt) \<Rightarrow>
       if truthy (cb_timerRef p)
       then (p\<lparr>cb_seconds := 0, cb_isRunning := False, cb_timerRef := None\<rparr>,
             clearInterval (the (cb_timerRef p)) tt)
       else (p\<lparr>cb_seconds := 0, cb_isRunning := False\<rparr>, tt))"

text \<open>The Start/Stop button: \<^verbatim>\<open>onClick={isRunning ? stopTimer : startTimer}\<close>.\<close>

definition cb_startStop_click ::
  "UseCallbackDemo_state \<times> timer_table \<Rightarrow> UseCallbackDemo_state \<times> timer_table" where
  "cb_startStop_click x = (if cb_isRunning (fst x) then cb_stopTimer x else cb_startTimer x)"

definition cb_tick :: "UseCallbackDemo_state \<Rightarrow> UseCallbackDemo_state" where
  "cb_tick p = p\<lparr>cb_seconds := cb_seconds p + 1\<rparr>"

text \<open>
  What React runs when \<^verbatim>\<open>UseCallbackDemo\<close> unmounts: the cleanups its effects returned.
  The component has one \<^verbatim>\<open>useEffect\<close> (the render counter), and it returns none; nothing
  in the component reads \<^verbatim>\<open>timerRef\<close> outside \<^verbatim>\<open>stopTimer\<close> and \<^verbatim>\<open>resetTimer\<close>.
\<close>

definition UseCallbackDemo_cleanup :: "UseCallbackDemo_state \<Rightarrow> timer_table \<Rightarrow> timer_table" where
  "UseCallbackDemo_cleanup p tt = tt"

subsection \<open>Handles held by UseRefDemo\<close>

text \<open>
  The handles the refs of \<^verbatim>\<open>UseRefDemo\<close> hold, and the invariant of its handlers: every
  active timer that was not there before the panel mounted (\<open>A\<close>) is held by a ref, and
  a stopwatch that is not running holds none.
\<close>

definition refs_of :: "UseRefDemo_state \<Rightarrow> nat set" where
  "refs_of p = {h. h \<noteq> 0 \<and> (ref_timerRef p = Some h \<or> ref_autoSaveTimeoutRef p = Some h)}"

definition ref_inv :: "nat set \<Rightarrow> UseRefDemo_state \<times> timer_table \<Rightarrow> bool" where
  "ref_inv A x =
    (case x of (p, tt) \<Rightarrow>
       active tt \<subseteq> A \<union> refs_of p \<and> (\<not> ref_isRunning p \<longrightarrow> ref_timerRef p = None))"

section \<open>Panel dispatch\<close>

text \<open>
  C1. The dispatch is total: for every id \<^verbatim>\<open>renderHookDemo\<close> yields an element (never
  the empty value, and no branch of the switch fails), and for every id outside the ten
  catalog ids it yields the placeholder \<^verbatim>\<open>div\<close>.
\<close>

theorem renderHookDemo_total:
  "renderHookDemo i \<noteq> Nothing \<and>
   (i \<notin> set (map hook_id hooks) \<longrightarrow>
      renderHookDemo i = Div ''p-8 text-center text-muted-foreground'' ''Hook demo coming soon...'')"
  by (simp add: renderHookDemo_def hooks_def)

theorem renderHookDemo_total_witness:
  "''useTransition'' \<notin> set (map hook_id hooks) \<and>
   renderHookDemo ''useTransition'' \<noteq> Nothing \<and>
   renderHookDemo ''useTransition'' =
     Div ''p-8 text-center text-muted-foreground'' ''Hook demo coming soon...''"
  using renderHookDemo_total [of "''useTransition''"]
  by (simp add: hooks_def)

section \<open>Selector rows\<close>

lemma rows_length: "length (rows (Sidebar sel os isOpen oc)) = length hooks"
  by (simp add: Sidebar_def)

lemma rows_nth:
  "i < length hooks \<Longrightarrow> rows (Sidebar sel os isOpen oc) ! i = Sidebar_row sel os oc (hooks ! i)"
  by (simp add: Sidebar_def)

lemma hooks_nth_3: "hook_id (hooks ! 3) = ''useReducer''"
  by (simp add: hooks_def)

lemma dispatch_row:
  "i < length hooks \<Longrightarrow>
   dispatch s (ClickRow i) = Some \<lparr>selectedHook = hook_id (hooks ! i), sidebarOpen = False\<rparr>"
  by (simp add: dispatch_def App_def rows_length rows_nth Sidebar_row_def
      setSelectedHook_def setSidebarOpen_def)

lemma dispatch_row_None: "\<not> i < length hooks \<Longrightarrow> dispatch s (ClickRow i) = None"
  by (simp add: dispatch_def App_def rows_length)

text \<open>
  C2. For every catalog entry (the \<open>i\<close>-th, with id X), the handler of its row is
  "selection callback with X, then close callback": with recording callbacks, one click
  appends exactly the call \<^verbatim>\<open>onHookSelect(X)\<close> followed by exactly one \<^verbatim>\<open>onClose()\<close>,
  whatever \<^verbatim>\<open>isOpen\<close> is (so also when it is true).
\<close>

theorem Sidebar_row_click:
  assumes "i < length hooks"
  shows "row_key (rows (Sidebar sel os isOpen oc) ! i) = hook_id (hooks ! i) \<and>
         row_onClick (rows (Sidebar sel os isOpen oc) ! i) = (\<lambda>s. oc (os (hook_id (hooks ! i)) s)) \<and>
         row_onClick (rows (Sidebar sel record_select True record_close) ! i) log =
           log @ [HookSelect (hook_id (hooks ! i)), Close]"
  using assms by (simp add: rows_nth Sidebar_row_def record_select_def record_close_def)

theorem Sidebar_row_click_witness:
  "(3::nat) < length hooks \<and>
   row_onClick (rows (Sidebar ''useState'' record_select True record_close) ! 3) [] =
     [HookSelect ''useReducer'', Close]"
proof -
  have h: "(3::nat) < length hooks" by (simp add: hooks_def)
  have "row_onClick (rows (Sidebar ''useState'' record_select True record_close) ! 3) [] =
          [] @ [HookSelect (hook_id (hooks ! 3)), Close]"
    using Sidebar_row_click [OF h, of "''useState''" record_select True record_close "[]"]
    by (rule conjunct2 [THEN conjunct2])
  with h show ?thesis by (simp add: hooks_nth_3)
qed

text \<open>
  C4. The Selector renders one row per catalog entry, in the catalog's order, each with
  its category as badge text and the category's style as badge class; the style is green
  for Basic, blue for Advanced, purple for Performance and gray for any other category.
\<close>

theorem Sidebar_rows_catalog:
  "map row_key (rows (Sidebar sel os isOpen oc)) =
     [''useState'', ''useEffect'', ''useContext'', ''useReducer'', ''useCallback'', ''useMemo'',
      ''useRef'', ''useImperativeHandle'', ''useLayoutEffect'', ''useDebugValue''] \<and>
   map row_key (rows (Sidebar sel os isOpen oc)) = map hook_id hooks \<and>
   map badge_text (rows (Sidebar sel os isOpen oc)) =
     [''Basic'', ''Basic'', ''Basic'', ''Advanced'', ''Performance'', ''Performance'',
      ''Advanced'', ''Advanced'', ''Advanced'', ''Advanced''] \<and>
   map badge_className (rows (Sidebar sel os isOpen oc)) =
     map (\<lambda>h. Cn [Some ''text-xs'', Some (getCategoryColor (category h))]) hooks \<and>
   getCategoryColor ''Basic'' = ''bg-green-100 text-green-800 hover:bg-green-200'' \<and>
   getCategoryColor ''Advanced'' = ''bg-blue-100 text-blue-800 hover:bg-blue-200'' \<and>
   getCategoryColor ''Performance'' = ''bg-purple-100 text-purple-800 hover:bg-purple-200'' \<and>
   (c \<notin> {''Basic'', ''Advanced'', ''Performance''} \<longrightarrow>
      getCategoryColor c = ''bg-gray-100 text-gray-800 hover:bg-gray-200'')"
  by (simp add: Sidebar_def Sidebar_row_def hooks_def getCategoryColor_def)

theorem Sidebar_rows_catalog_witness:
  "''Expert'' \<notin> {''Basic'', ''Advanced'', ''Performance''} \<and>
   getCategoryColor ''Expert'' = ''bg-gray-100 text-gray-800 hover:bg-gray-200'' \<and>
   length (rows (Sidebar ''useState'' setSelectedHook False (setSidebarOpen False))) = 10"
proof -
  have n: "''Expert'' \<notin> {''Basic'', ''Advanced'', ''Performance''}" by simp
  note c = Sidebar_rows_catalog [of "''useState''" setSelectedHook False "setSidebarOpen False" "''Expert''"]
  from c n have g: "getCategoryColor ''Expert'' = ''bg-gray-100 text-gray-800 hover:bg-gray-200''"
    by blast
  from c have "length (map row_key (rows (Sidebar ''useState'' setSelectedHook False (setSidebarOpen False)))) = 10"
    by simp
  with n g show ?thesis by simp
qed

section \<open>Navigation state\<close>

text \<open>
  C5. At mount \<^verbatim>\<open>selectedHook\<close> is \<^verbatim>\<open>'useState'\<close>, the id of the first catalog entry,
  \<^verbatim>\<open>sidebarOpen\<close> is false, and the content area holds the \<^verbatim>\<open>UseStateDemo\<close> panel.
\<close>

theorem initial_mount:
  "selectedHook initial = ''useState'' \<and>
   selectedHook initial = hook_id (hd hooks) \<and>
   sidebarOpen initial = False \<and>
   main_children (App initial) = [Component ''UseStateDemo'']"
  by (simp add: initial_def hooks_def App_def renderHookDemo_def)

lemma dispatch_selected:
  assumes "dispatch s e = Some t"
  shows "selectedHook t = selectedHook s \<or> (\<exists>i < length hooks. selectedHook t = hook_id (hooks ! i))"
proof (cases e)
  case (ClickRow i)
  with assms show ?thesis
    by (cases "i < length hooks") (auto simp: dispatch_row dispatch_row_None)
qed (use assms in \<open>auto simp: dispatch_def App_def Sidebar_def setSidebarOpen_def split: if_splits\<close>)

lemma reachable_selected: "reachable s \<Longrightarrow> selectedHook s \<in> set (map hook_id hooks)"
proof (induction rule: reachable.induct)
  case mount
  show ?case by (simp add: initial_def hooks_def)
next
  case (click s e t)
  from dispatch_selected [OF click.hyps(2)] click.IH show ?case
    by auto
qed

lemma catalog_panel:
  "i \<in> set (map hook_id hooks) \<Longrightarrow> \<exists>c. renderHookDemo i = Component c"
  by (auto simp: hooks_def renderHookDemo_def)

lemma reachable_useReducer: "reachable \<lparr>selectedHook = ''useReducer'', sidebarOpen = False\<rparr>"
proof -
  have "dispatch initial (ClickRow 3) = Some \<lparr>selectedHook = ''useReducer'', sidebarOpen = False\<rparr>"
    using dispatch_row [of 3 initial] by (simp add: hooks_def)
  with reachable.mount show ?thesis by (rule reachable.click)
qed

text \<open>
  C3. In every state reachable from mount by clicks, \<^verbatim>\<open>selectedHook\<close> is one of the ten
  catalog ids, and the content area holds exactly one element, which is a panel.
\<close>

theorem reachable_invariant:
  assumes "reachable s"
  shows "selectedHook s \<in> set (map hook_id hooks) \<and>
         length (main_children (App s)) = 1 \<and>
         length (mounted_panels (main_children (App s))) = 1"
proof -
  have sel: "selectedHook s \<in> set (map hook_id hooks)"
    using assms by (rule reachable_selected)
  then obtain c where "renderHookDemo (selectedHook s) = Component c"
    using catalog_panel by blast
  then have "mounted_panels (main_children (App s)) = [c]"
    by (simp add: App_def)
  with sel show ?thesis by (simp add: App_def)
qed

theorem reachable_invariant_witness:
  "reachable \<lparr>selectedHook = ''useReducer'', sidebarOpen = False\<rparr> \<and>
   ''useReducer'' \<in> set (map hook_id hooks) \<and>
   mounted_panels (main_children (App \<lparr>selectedHook = ''useReducer'', sidebarOpen = False\<rparr>)) =
     [''UseReducerDemo'']"
  using reachable_invariant [OF reachable_useReducer] reachable_useReducer
  by (simp add: App_def renderHookDemo_def)

lemma catalog_panels:
  "map renderHookDemo (map hook_id hooks) =
    [Component ''UseStateDemo'', Component ''UseEffectDemo'', Component ''UseContextDemo'',
     Component ''UseReducerDemo'', Component ''UseCallbackDemo'', Component ''UseMemoDemo'',
     Component ''UseRefDemo'', Component ''UseImperativeHandleDemo'',
     Component ''UseLayoutEffectDemo'', Component ''UseDebugValueDemo'']"
  by (simp add: hooks_def renderHookDemo_def)

lemma catalog_panels_distinct: "distinct (map renderHookDemo (map hook_id hooks))"
  unfolding catalog_panels by simp

text \<open>
  C6. For each of the ten catalog ids \<^verbatim>\<open>renderHookDemo\<close> yields a non-empty element (a
  component element), and distinct catalog ids yield distinct elements.
\<close>

theorem renderHookDemo_catalog:
  "length hooks = 10 \<and>
   (\<forall>a \<in> set hooks. renderHookDemo (hook_id a) \<noteq> Nothing \<and>
      (\<exists>c. c \<noteq> [] \<and> renderHookDemo (hook_id a) = Component c)) \<and>
   (\<forall>a \<in> set hooks. \<forall>b \<in> set hooks. hook_id a \<noteq> hook_id b \<longrightarrow>
      renderHookDemo (hook_id a) \<noteq> renderHookDemo (hook_id b))"
proof (intro conjI ballI impI)
  show "length hooks = 10" by (simp add: hooks_def)
next
  fix a assume "a \<in> set hooks"
  then show "renderHookDemo (hook_id a) \<noteq> Nothing"
    by (simp add: renderHookDemo_def)
next
  fix a assume "a \<in> set hooks"
  then show "\<exists>c. c \<noteq> [] \<and> renderHookDemo (hook_id a) = Component c"
    by (auto simp: hooks_def renderHookDemo_def)
next
  fix a b assume ab: "a \<in> set hooks" "b \<in> set hooks" "hook_id a \<noteq> hook_id b"
  have "inj_on renderHookDemo (set (map hook_id hooks))"
    using catalog_panels_distinct unfolding distinct_map by (rule conjunct2)
  moreover have "hook_id a \<in> set (map hook_id hooks)" "hook_id b \<in> set (map hook_id hooks)"
    using ab by simp_all
  ultimately show "renderHookDemo (hook_id a) \<noteq> renderHookDemo (hook_id b)"
    using ab(3) by (auto dest: inj_onD)
qed

theorem renderHookDemo_catalog_witness:
  "hooks ! 0 \<in> set hooks \<and> hooks ! 4 \<in> set hooks \<and>
   hook_id (hooks ! 0) \<noteq> hook_id (hooks ! 4) \<and>
   renderHookDemo (hook_id (hooks ! 0)) = Component ''UseStateDemo'' \<and>
   renderHookDemo (hook_id (hooks ! 4)) = Component ''UseCallbackDemo'' \<and>
   renderHookDemo (hook_id (hooks ! 0)) \<noteq> renderHookDemo (hook_id (hooks ! 4))"
proof -
  have a: "hooks ! 0 \<in> set hooks" and b: "hooks ! 4 \<in> set hooks"
    by (simp_all add: hooks_def)
  have ab: "hook_id (hooks ! 0) \<noteq> hook_id (hooks ! 4)"
    by (simp add: hooks_def)
  from renderHookDemo_catalog a b ab
  have "renderHookDemo (hook_id (hooks ! 0)) \<noteq> renderHookDemo (hook_id (hooks ! 4))"
    by blast
  moreover have "renderHookDemo (hook_id (hooks ! 0)) = Component ''UseStateDemo''"
    "renderHookDemo (hook_id (hooks ! 4)) = Component ''UseCallbackDemo''"
    by (simp_all add: hooks_def renderHookDemo_def)
  ultimately show ?thesis using a b ab by blast
qed

text \<open>
  C7. The overlay is rendered only when the sidebar is open, and its click handler is the
  close callback alone: with recording callbacks a click appends one \<^verbatim>\<open>onClose()\<close> and no
  selection; in the Shell it sets \<^verbatim>\<open>sidebarOpen\<close> to false and leaves \<^verbatim>\<open>selectedHook\<close>
  as it was.
\<close>

theorem overlay_click:
  "overlay_onClick (Sidebar sel os isOpen oc) = (if isOpen then Some oc else None) \<and>
   map_option (\<lambda>h. h log) (overlay_onClick (Sidebar sel record_select isOpen record_close)) =
     (if isOpen then Some (log @ [Close]) else None) \<and>
   dispatch s ClickOverlay =
     (if sidebarOpen s then Some \<lparr>selectedHook = selectedHook s, sidebarOpen = False\<rparr> else None)"
  by (simp add: Sidebar_def record_close_def dispatch_def App_def setSidebarOpen_def)

theorem overlay_click_witness:
  "map_option (\<lambda>h. h []) (overlay_onClick (Sidebar ''useMemo'' record_select True record_close)) =
     Some [Close] \<and>
   dispatch \<lparr>selectedHook = ''useMemo'', sidebarOpen = True\<rparr> ClickOverlay =
     Some \<lparr>selectedHook = ''useMemo'', sidebarOpen = False\<rparr> \<and>
   dispatch \<lparr>selectedHook = ''useMemo'', sidebarOpen = False\<rparr> ClickOverlay = None"
  using overlay_click [of "''useMemo''" record_select True record_close "[]"
      "\<lparr>selectedHook = ''useMemo'', sidebarOpen = True\<rparr>"]
    overlay_click [of "''useMemo''" record_select True record_close "[]"
      "\<lparr>selectedHook = ''useMemo'', sidebarOpen = False\<rparr>"]
  by simp

text \<open>
  C10. The content area depends on \<^verbatim>\<open>selectedHook\<close> only: two states with the same
  \<^verbatim>\<open>selectedHook\<close> render the same panel whatever their \<^verbatim>\<open>sidebarOpen\<close>, and a click on
  the menu button, the overlay or the close button changes neither \<^verbatim>\<open>selectedHook\<close> nor
  the panel.
\<close>

theorem panel_independent_of_sidebar:
  "(selectedHook s = selectedHook t \<longrightarrow> main_children (App s) = main_children (App t)) \<and>
   (e \<in> {ClickMenu, ClickOverlay, ClickCloseButton} \<and> dispatch s e = Some s' \<longrightarrow>
      selectedHook s' = selectedHook s \<and> main_children (App s') = main_children (App s))"
  by (auto simp: App_def dispatch_def Sidebar_def setSidebarOpen_def split: if_splits)

theorem panel_independent_of_sidebar_witness:
  "dispatch \<lparr>selectedHook = ''useRef'', sidebarOpen = False\<rparr> ClickMenu =
     Some \<lparr>selectedHook = ''useRef'', sidebarOpen = True\<rparr> \<and>
   main_children (App \<lparr>selectedHook = ''useRef'', sidebarOpen = True\<rparr>) =
     main_children (App \<lparr>selectedHook = ''useRef'', sidebarOpen = False\<rparr>) \<and>
   main_children (App \<lparr>selectedHook = ''useRef'', sidebarOpen = True\<rparr>) = [Component ''UseRefDemo'']"
proof -
  have d: "dispatch \<lparr>selectedHook = ''useRef'', sidebarOpen = False\<rparr> ClickMenu =
     Some \<lparr>selectedHook = ''useRef'', sidebarOpen = True\<rparr>"
    by (simp add: dispatch_def App_def setSidebarOpen_def)
  have "main_children (App \<lparr>selectedHook = ''useRef'', sidebarOpen = True\<rparr>) =
     main_children (App \<lparr>selectedHook = ''useRef'', sidebarOpen = False\<rparr>)"
    using panel_independent_of_sidebar [of "\<lparr>selectedHook = ''useRef'', sidebarOpen = False\<rparr>"
        "\<lparr>selectedHook = ''useRef'', sidebarOpen = False\<rparr>" ClickMenu
        "\<lparr>selectedHook = ''useRef'', sidebarOpen = True\<rparr>"] d
    by simp
  moreover have "main_children (App \<lparr>selectedHook = ''useRef'', sidebarOpen = True\<rparr>) = [Component ''UseRefDemo'']"
    by (simp add: App_def renderHookDemo_def)
  ultimately show ?thesis using d by simp
qed

section \<open>Reading local storage at mount\<close>

lemma useLocalStorage_init_unavailable:
  "useLocalStorage_init parse Unavailable key d = Inr d"
  by (simp add: useLocalStorage_init_def useLocalStorage_try_def getItem_def)

text \<open>
  C8. For every key and default, the initialiser of \<^verbatim>\<open>useLocalStorage\<close> returns normally:
  the parsed value when the stored text parses, and the caller's default when the key is
  absent or the stored text does not parse (\<^verbatim>\<open>JSON.parse\<close> rejects the empty text).
\<close>

theorem useLocalStorage_init_read:
  assumes "parse [] = None"
  shows "\<exists>r. useLocalStorage_init parse st key d = Inr r \<and>
           (\<forall>text v. getItem st key = Inr (Some text) \<and> parse text = Some v \<longrightarrow> r = v) \<and>
           (getItem st key = Inr None \<longrightarrow> r = d) \<and>
           (\<forall>text. getItem st key = Inr (Some text) \<and> parse text = None \<longrightarrow> r = d)"
  using assms
  by (cases "getItem st key")
     (auto simp: useLocalStorage_init_def useLocalStorage_try_def JSON_parse_def
           split: option.splits sum.splits)

theorem useLocalStorage_init_read_witness:
  "(\<lambda>t. if t = ''true'' then Some True else if t = ''false'' then Some False else None) [] = None \<and>
   useLocalStorage_init
     (\<lambda>t. if t = ''true'' then Some True else if t = ''false'' then Some False else None)
     (Items [''demo-flag'' \<mapsto> ''{tru'']) ''demo-flag'' True = Inr True \<and>
   useLocalStorage_init
     (\<lambda>t. if t = ''true'' then Some True else if t = ''false'' then Some False else None)
     (Items [''demo-flag'' \<mapsto> ''false'']) ''demo-flag'' True = Inr False \<and>
   useLocalStorage_init
     (\<lambda>t. if t = ''true'' then Some True else if t = ''false'' then Some False else None)
     (Items Map.empty) ''demo-flag'' True = Inr True"
proof -
  let ?p = "\<lambda>t. if t = ''true'' then Some True else if t = ''false'' then Some False else None"
  have h: "?p [] = None" by simp
  have g1: "getItem (Items [''demo-flag'' \<mapsto> ''{tru'']) ''demo-flag'' = Inr (Some ''{tru'')"
    and g2: "getItem (Items [''demo-flag'' \<mapsto> ''false'']) ''demo-flag'' = Inr (Some ''false'')"
    and g3: "getItem (Items Map.empty) ''demo-flag'' = Inr None"
    by (simp_all add: getItem_def)
  have p1: "?p ''{tru'' = None" and p2: "?p ''false'' = Some False" by simp_all
  from useLocalStorage_init_read [of ?p "Items [''demo-flag'' \<mapsto> ''{tru'']" "''demo-flag''" True] h g1 p1
  have r1: "useLocalStorage_init ?p (Items [''demo-flag'' \<mapsto> ''{tru'']) ''demo-flag'' True = Inr True"
    by auto
  from useLocalStorage_init_read [of ?p "Items [''demo-flag'' \<mapsto> ''false'']" "''demo-flag''" True] h g2 p2
  have r2: "useLocalStorage_init ?p (Items [''demo-flag'' \<mapsto> ''false'']) ''demo-flag'' True = Inr False"
    by auto
  from useLocalStorage_init_read [of ?p "Items Map.empty" "''demo-flag''" True] h g3
  have r3: "useLocalStorage_init ?p (Items Map.empty) ''demo-flag'' True = Inr True"
    by auto
  from h r1 r2 r3 show ?thesis by blast
qed

section \<open>Timers across a panel swap\<close>

text \<open>
  \<^verbatim>\<open>UseRefDemo\<close> releases what it registered: after any sequence of its handlers, the
  cleanup that runs at unmount leaves no timer active that was not active before mount.
\<close>

lemma ref_handle_inv:
  assumes "ref_inv A x"
  shows "ref_inv A (ref_handle x e)"
proof (cases x)
  case (Pair p tt)
  with assms show ?thesis
    by (cases e; cases "ref_timerRef p"; cases "ref_autoSaveTimeoutRef p")
       (auto simp: ref_inv_def refs_of_def ref_startTimer_def ref_stopTimer_def
          ref_resetTimer_def handleAutoSaveChange_def ref_tick_def setInterval_def
          setTimeout_def clearInterval_def clearTimeout_def)
qed

lemma ref_run_inv: "ref_inv A x \<Longrightarrow> ref_inv A (foldl ref_handle x es)"
  by (induction es arbitrary: x) (simp_all add: ref_handle_inv)

lemma UseRefDemo_cleanup_releases:
  "ref_inv A (p, tt) \<Longrightarrow> active (UseRefDemo_cleanup p tt) \<subseteq> A"
  by (cases "ref_timerRef p"; cases "ref_autoSaveTimeoutRef p")
     (auto simp: ref_inv_def UseRefDemo_cleanup_def refs_of_def clearInterval_def
        clearTimeout_def Let_def)

lemma UseRefDemo_unmount_clean:
  assumes "foldl ref_handle (UseRefDemo_mount, tt0) es = (p, tt)"
  shows "active (UseRefDemo_cleanup p tt) \<subseteq> active tt0"
proof -
  have "ref_inv (active tt0) (UseRefDemo_mount, tt0)"
    by (simp add: ref_inv_def UseRefDemo_mount_def)
  then have "ref_inv (active tt0) (foldl ref_handle (UseRefDemo_mount, tt0) es)"
    by (rule ref_run_inv)
  with assms show ?thesis by (simp add: UseRefDemo_cleanup_releases)
qed

lemma UseRefDemo_interval_released:
  "(case ref_startTimer (UseRefDemo_mount, \<lparr>last_handle = 0, active = {}\<rparr>) of
      (p, tt) \<Rightarrow> ref_timerRef p = Some 1 \<and> active tt = {1} \<and>
                 active (UseRefDemo_cleanup p tt) = {})"
  by (simp add: ref_startTimer_def UseRefDemo_mount_def setInterval_def UseRefDemo_cleanup_def clearInterval_def)

text \<open>
  C9, evaluated where the code departs from it. With \<^verbatim>\<open>useCallback\<close> selected, start the
  panel's timer and click the \<^verbatim>\<open>useState\<close> row: the next render mounts exactly one panel,
  \<^verbatim>\<open>UseStateDemo\<close>, but nothing \<^verbatim>\<open>UseCallbackDemo\<close> runs at unmount clears its interval,
  so the handle stays active and its callback goes on calling \<^verbatim>\<open>setSeconds\<close>.
\<close>

theorem UseCallbackDemo_interval_survives_unmount:
  "dispatch \<lparr>selectedHook = ''useCallback'', sidebarOpen = True\<rparr> (ClickRow 0) =
     Some \<lparr>selectedHook = ''useState'', sidebarOpen = False\<rparr> \<and>
   mounted_panels (main_children (App \<lparr>selectedHook = ''useCallback'', sidebarOpen = True\<rparr>)) =
     [''UseCallbackDemo''] \<and>
   mounted_panels (main_children (App \<lparr>selectedHook = ''useState'', sidebarOpen = False\<rparr>)) =
     [''UseStateDemo''] \<and>
   (case cb_startStop_click (UseCallbackDemo_mount, \<lparr>last_handle = 0, active = {}\<rparr>) of
      (p, tt) \<Rightarrow> cb_timerRef p = Some 1 \<and> active tt = {1} \<and>
                 active (UseCallbackDemo_cleanup p tt) = {1} \<and>
                 cb_seconds (cb_tick p) = cb_seconds p + 1)"
  by (simp add: dispatch_row [of 0, simplified hooks_def, simplified] hooks_def App_def renderHookDemo_def
        cb_startStop_click_def cb_startTimer_def UseCallbackDemo_mount_def setInterval_def
        UseCallbackDemo_cleanup_def cb_tick_def)

end
